theory Spec2Isabelle
  imports Complex_Main
begin

section \<open>The Streamlit script \<open>app.py\<close>\<close>

text \<open>
  \<open>app.py\<close> is one Streamlit script: a sidebar that reads two model settings, and
  \<open>main()\<close>, which logs the caller in, draws the page and, when the run button was
  pressed, checks the rate limit, validates the prompt, selects the models, dispatches the
  prompt, and shows four result tabs.  The collaborators \<open>login\<close>, \<open>check_limit\<close>,
  \<open>choose_models\<close>, \<open>run_parallel\<close> and \<open>generate_report\<close> are imported from modules
  that are not part of the script; they are parameters of the model (\<open>env\<close>), each a
  transformer of the state \<open>'w\<close> of everything outside the script.  What the script does
  is recorded as a trace of events: the collaborator calls with their arguments, and the
  Streamlit calls.
\<close>

subsection \<open>Python strings and \<open>str.strip\<close>\<close>

text \<open>
  The prompt is the only string whose characters the script inspects, so it is a list of
  Unicode code points.  \<open>str.strip()\<close> without argument removes leading and trailing
  characters for which \<open>str.isspace\<close> holds.
\<close>

type_synonym pystr = "nat list"

definition isspace :: "nat \<Rightarrow> bool" where
  "isspace c \<longleftrightarrow>
     (9 \<le> c \<and> c \<le> 13) \<or> (28 \<le> c \<and> c \<le> 32) \<or> c = 133 \<or> c = 160 \<or> c = 5760 \<or>
     (8192 \<le> c \<and> c \<le> 8202) \<or> c = 8232 \<or> c = 8233 \<or> c = 8239 \<or> c = 8287 \<or> c = 12288"

definition strip :: "pystr \<Rightarrow> pystr" where
  "strip s = rev (dropWhile isspace (rev (dropWhile isspace s)))"

definition pystr_of :: "string \<Rightarrow> pystr" where
  "pystr_of s = map of_char s"

subsection \<open>Data\<close>

text \<open>
  The data frame that \<open>pd.read_csv\<close> makes of \<open>data/metrics/metrics.csv\<close>, and the series
  that the charts show, are values of pandas: the script hands them from one pandas call
  to the next and never inspects them.  A data frame is held as the rows of cells of the
  file, a series as index labels with values, every cell and value as the text pandas
  prints.  The numbers inside are 64-bit floating point, and their arithmetic is not
  modelled.
\<close>

type_synonym dataframe = "string list list"

type_synonym series = "(string \<times> string) list"

text \<open>The fixed pieces of HTML the script passes to \<open>st.markdown\<close>.\<close>

datatype markup = AppTitle | AppSubtitle | CardOpen | CardClose | ResultsHeading

datatype error = StreamlitAPIException

datatype outcome = Completed | Stopped | Raised error

datatype 'm event =
    CallLogin
  | CallCheckLimit string
  | CallChooseModels string
  | CallRunParallel pystr 'm
  | CallGenerateReport pystr "(string \<times> string) list"
  | OsPathExists string
  | ReadCsv string
  | StSidebarUser string
  | StSuccess string
  | StError string
  | StWarning string
  | StSlider string real
  | StNumberInput string int
  | StMarkdown markup
  | StColumns nat
  | StSelectbox string "string list"
  | StTextArea string
  | StMetric string string string
  | StWrite
  | StButton
  | StStatus string
  | StTabs "string list"
  | ModelCard nat string string
  | StJson "(string \<times> string) list"
  | StBarChart series
  | StLineChart series

text \<open>
  The widget values and the session of one script run.  \<open>session_user\<close> is the entry
  \<open>"user"\<close> of \<open>st.session_state\<close> when the run starts; \<open>task_index\<close> is the position
  selected in the objective select box.
\<close>

record inputs =
  session_user :: "string option"
  model_temp :: real
  max_tokens :: int
  task_index :: nat
  prompt :: pystr
  run_btn :: bool

text \<open>
  The collaborators.  \<open>login\<close> may set the session's user; \<open>check_limit\<close> answers for an
  identity; \<open>generate_report\<close> is called for its effect only.  \<open>clock\<close> is \<open>time.time()\<close>,
  \<open>elapsed_text d\<close> is the text \<open>f"{round(d, 2)}s"\<close>, \<open>path_exists\<close> is \<open>os.path.exists\<close>
  and \<open>read_csv\<close> is \<open>pd.read_csv\<close>.  The pandas computations of the performance tab are
  parameters too: \<open>to_datetime df\<close> is \<open>df\<close> after
  \<open>df["timestamp"] = pd.to_datetime(df["timestamp"], unit="s")\<close>, \<open>groupby_mean col df\<close> is
  \<open>df.groupby("model")[col].mean()\<close>, and \<open>resample_count df\<close> is
  \<open>df.set_index("timestamp").resample("1min").count()["model"]\<close>.
\<close>

record ('w, 'm) env =
  login :: "string option \<Rightarrow> 'w \<Rightarrow> string option \<times> 'w"
  check_limit :: "string \<Rightarrow> 'w \<Rightarrow> bool \<times> 'w"
  choose_models :: "string \<Rightarrow> 'w \<Rightarrow> 'm \<times> 'w"
  run_parallel :: "pystr \<Rightarrow> 'm \<Rightarrow> 'w \<Rightarrow> (string \<times> string) list \<times> 'w"
  generate_report :: "pystr \<Rightarrow> (string \<times> string) list \<Rightarrow> 'w \<Rightarrow> 'w"
  clock :: "'w \<Rightarrow> real"
  elapsed_text :: "real \<Rightarrow> string"
  path_exists :: "string \<Rightarrow> 'w \<Rightarrow> bool"
  read_csv :: "string \<Rightarrow> 'w \<Rightarrow> dataframe"
  to_datetime :: "dataframe \<Rightarrow> dataframe"
  groupby_mean :: "string \<Rightarrow> dataframe \<Rightarrow> series"
  resample_count :: "dataframe \<Rightarrow> series"

record ('w, 'm) result =
  outcome :: outcome
  trace :: "'m event list"
  world :: 'w

subsection \<open>The script\<close>

definition task_options :: "string list" where
  "task_options = [''General'', ''Coding'', ''Fast Response'', ''Cost Saving'']"

text \<open>
  \<open>st.selectbox(label, options)\<close> returns the option at the selected position; Streamlit
  keeps that position within the options.
\<close>

definition selectbox :: "string list \<Rightarrow> nat \<Rightarrow> string" where
  "selectbox options i = options ! i"

text \<open>
  \<open>st.columns(n)\<close> for an integer \<open>n\<close> raises \<open>StreamlitAPIException\<close> unless \<open>n\<close> is
  positive, and returns \<open>n\<close> columns otherwise (here: their positions).
\<close>

definition st_columns :: "nat \<Rightarrow> error + nat list" where
  "st_columns n = (if n = 0 then Inl StreamlitAPIException else Inr [0..<n])"

definition metrics_file :: string where
  "metrics_file = ''data/metrics/metrics.csv''"

text \<open>The sidebar, which runs before \<open>main()\<close> (lines 114 to 127).\<close>

definition sidebar :: "inputs \<Rightarrow> 'm event list" where
  "sidebar inp =
     (case session_user inp of Some u \<Rightarrow> [StSidebarUser u] | None \<Rightarrow> []) @
     [StSlider ''Temperature'' (model_temp inp), StNumberInput ''Max Tokens'' (max_tokens inp)]"

text \<open>Lines 135 to 162: title, the two input cards, the run button.\<close>

definition page_header :: "'m event list" where
  "page_header =
     [StMarkdown AppTitle, StMarkdown AppSubtitle, StColumns 2,
      StMarkdown CardOpen, StSelectbox ''Target Objective'' task_options,
      StMetric ''Active Models'' ''3'' ''Operational'', StMarkdown CardClose,
      StMarkdown CardOpen, StTextArea ''Input Prompt'', StMarkdown CardClose,
      StWrite, StButton]"

text \<open>Lines 188 to 200: one column per entry of \<open>responses\<close>, one card in each.\<close>

definition visual_tab :: "(string \<times> string) list \<Rightarrow> error + 'm event list" where
  "visual_tab responses =
     (case st_columns (length responses) of
        Inl e \<Rightarrow> Inl e
      | Inr cols \<Rightarrow>
          Inr (StColumns (length responses) #
               map (\<lambda>(i, model, text). ModelCard (cols ! i) model text) (enumerate 0 responses)))"

text \<open>Lines 205 to 210.\<close>

definition cost_steps ::
  "('w, 'm) env \<Rightarrow> pystr \<Rightarrow> (string \<times> string) list \<Rightarrow> real \<Rightarrow> 'm event list" where
  "cost_steps e p responses elapsed =
     [CallGenerateReport p responses, StSuccess ''Cost report generated.'', StColumns 2,
      StMetric ''Estimated Cost'' ''$0.0042'' ''-12%'',
      StMetric ''Avg Latency'' (elapsed_text e elapsed) ''Fast'']"

definition cost_tab ::
  "('w, 'm) env \<Rightarrow> pystr \<Rightarrow> (string \<times> string) list \<Rightarrow> real \<Rightarrow> 'w \<Rightarrow> 'm event list \<times> 'w" where
  "cost_tab e p responses elapsed w =
     (cost_steps e p responses elapsed, generate_report e p responses w)"

text \<open>Lines 212 to 222.\<close>

definition performance_tab :: "('w, 'm) env \<Rightarrow> 'w \<Rightarrow> 'm event list" where
  "performance_tab e w =
     (if \<not> path_exists e metrics_file w
      then [OsPathExists metrics_file, StWarning ''No metrics available.'']
      else let df = to_datetime e (read_csv e metrics_file w) in
        [OsPathExists metrics_file, ReadCsv metrics_file,
         StBarChart (groupby_mean e ''latency'' df),
         StBarChart (groupby_mean e ''response_length'' df),
         StLineChart (resample_count e df)])"

text \<open>Lines 173 to 186: selection and dispatch inside the status box, then the tabs.\<close>

definition dispatch_steps :: "string \<Rightarrow> pystr \<Rightarrow> 'm \<Rightarrow> 'm event list" where
  "dispatch_steps task p models =
     [StStatus ''Running model orchestration...'', CallChooseModels task,
      CallRunParallel p models, StMarkdown ResultsHeading,
      StTabs [''Visual'', ''Raw JSON'', ''Cost'', ''Performance'']]"

text \<open>Lines 173 to 222: the run itself, once both guards have passed.\<close>

definition orchestrate ::
  "('w, 'm) env \<Rightarrow> string \<Rightarrow> pystr \<Rightarrow> 'w \<Rightarrow> ('w, 'm) result" where
  "orchestrate e task p w =
     (let (models, w3) = choose_models e task w;
          start = clock e w3;
          (responses, w4) = run_parallel e p models w3;
          elapsed = clock e w4 - start
      in case visual_tab responses of
           Inl err \<Rightarrow>
             \<lparr>outcome = Raised err, trace = dispatch_steps task p models, world = w4\<rparr>
         | Inr cards \<Rightarrow>
             let (ct, w5) = cost_tab e p responses elapsed w4
             in \<lparr>outcome = Completed,
                 trace = dispatch_steps task p models @ cards @ [StJson responses] @ ct @
                         performance_tab e w5,
                 world = w5\<rparr>)"

text \<open>Lines 164 to 171 and on: the body of \<open>if run_btn\<close>, for the logged-in user.\<close>

definition run_analysis ::
  "('w, 'm) env \<Rightarrow> string \<Rightarrow> string \<Rightarrow> pystr \<Rightarrow> 'w \<Rightarrow> ('w, 'm) result" where
  "run_analysis e user task p w =
     (let (allowed, w2) = check_limit e user w in
      if \<not> allowed then
        \<lparr>outcome = Stopped, trace = [CallCheckLimit user, StError ''Rate limit reached.''],
         world = w2\<rparr>
      else if strip p = [] then
        \<lparr>outcome = Stopped, trace = [CallCheckLimit user, StWarning ''Please enter a prompt.''],
         world = w2\<rparr>
      else
        let r = orchestrate e task p w2
        in r\<lparr>trace := CallCheckLimit user # trace r\<rparr>)"

definition main :: "('w, 'm) env \<Rightarrow> inputs \<Rightarrow> 'w \<Rightarrow> ('w, 'm) result" where
  "main e inp w =
     (let (sess, w1) = login e (session_user inp) w in
      case sess of
        None \<Rightarrow> \<lparr>outcome = Stopped, trace = [CallLogin], world = w1\<rparr>
      | Some user \<Rightarrow>
          let task = selectbox task_options (task_index inp) in
          if \<not> run_btn inp then
            \<lparr>outcome = Completed, trace = CallLogin # page_header, world = w1\<rparr>
          else
            let r = run_analysis e user task (prompt inp) w1
            in r\<lparr>trace := CallLogin # page_header @ trace r\<rparr>)"

text \<open>The whole script: the sidebar, then \<open>main()\<close>.\<close>

definition script :: "('w, 'm) env \<Rightarrow> inputs \<Rightarrow> 'w \<Rightarrow> ('w, 'm) result" where
  "script e inp w = (let r = main e inp w in r\<lparr>trace := sidebar inp @ trace r\<rparr>)"

subsection \<open>Reading a trace\<close>

fun is_call :: "'m event \<Rightarrow> bool" where
  "is_call CallLogin = True"
| "is_call (CallCheckLimit _) = True"
| "is_call (CallChooseModels _) = True"
| "is_call (CallRunParallel _ _) = True"
| "is_call (CallGenerateReport _ _) = True"
| "is_call _ = False"

definition calls :: "'m event list \<Rightarrow> 'm event list" where
  "calls t = filter is_call t"

fun is_dispatch :: "'m event \<Rightarrow> bool" where
  "is_dispatch (CallRunParallel _ _) = True"
| "is_dispatch _ = False"


fun is_report :: "'m event \<Rightarrow> bool" where
  "is_report (CallGenerateReport _ _) = True"
| "is_report _ = False"

fun is_limit_check :: "'m event \<Rightarrow> bool" where
  "is_limit_check (CallCheckLimit _) = True"
| "is_limit_check _ = False"

fun estimated_cost :: "'m event \<Rightarrow> string option" where
  "estimated_cost (StMetric label v d) = (if label = ''Estimated Cost'' then Some v else None)"
| "estimated_cost _ = None"

definition reported_costs :: "'m event list \<Rightarrow> string list" where
  "reported_costs t = List.map_filter estimated_cost t"

fun is_read :: "'m event \<Rightarrow> bool" where
  "is_read (ReadCsv _) = True"
| "is_read (StBarChart _) = True"
| "is_read (StLineChart _) = True"
| "is_read _ = False"

text \<open>The cards of the visual tab: entry \<open>i\<close> of the responses in column \<open>i\<close>.\<close>

definition model_cards :: "(string \<times> string) list \<Rightarrow> 'm event list" where
  "model_cards responses = map (\<lambda>(i, model, text). ModelCard i model text) (enumerate 0 responses)"

subsection \<open>Example collaborators\<close>

text \<open>
  A small outside world on which the script can be run: the identities checked so far, the
  number of reports written, and the metrics file (\<open>None\<close> when it does not exist).
\<close>

record demo_world =
  checked :: "string list"
  reports :: nat
  csv :: "dataframe option"

text \<open>
  Modelled from the spec: \<open>utils.rate_limiter.check_limit\<close> is not part of the script.
  Section 4.1: every check counts the attempt, also a rejected one, and is allowed while
  the count stays within the limit; section 8 takes the limit 5.  The expiry of the window
  is left out.
\<close>

definition demo_check_limit :: "string \<Rightarrow> demo_world \<Rightarrow> bool \<times> demo_world" where
  "demo_check_limit u w =
     (length (filter (\<lambda>v. v = u) (u # checked w)) \<le> 5, w\<lparr>checked := u # checked w\<rparr>)"

definition demo_env :: "(demo_world, string list) env" where
  "demo_env =
     \<lparr>login = (\<lambda>s w. (s, w)),
      check_limit = demo_check_limit,
      choose_models = (\<lambda>t w. (if t = ''Coding'' then [''model-a'', ''model-b''] else [''model-a''], w)),
      run_parallel = (\<lambda>p ms w. (map (\<lambda>m. (m, ''ok'')) ms, w)),
      generate_report = (\<lambda>p rs w. w\<lparr>reports := Suc (reports w)\<rparr>),
      clock = (\<lambda>w. 0),
      elapsed_text = (\<lambda>d. ''0.0s''),
      path_exists = (\<lambda>f w. csv w \<noteq> None),
      read_csv = (\<lambda>f w. case csv w of None \<Rightarrow> [] | Some df \<Rightarrow> df),
      to_datetime = (\<lambda>df. df),
      groupby_mean = (\<lambda>col df. []),
      resample_count = (\<lambda>df. [])\<rparr>"

text \<open>The same collaborators, with a dispatcher that returns an empty mapping.\<close>

definition silent_env :: "(demo_world, string list) env" where
  "silent_env = demo_env\<lparr>run_parallel := (\<lambda>p ms w. ([], w))\<rparr>"

definition demo_world0 :: demo_world where
  "demo_world0 = \<lparr>checked = [], reports = 0, csv = None\<rparr>"

definition demo_inputs :: inputs where
  "demo_inputs =
     \<lparr>session_user = Some ''u1'', model_temp = 0.7, max_tokens = 1024, task_index = 1,
      prompt = pystr_of ''write a sort function'', run_btn = True\<rparr>"

text \<open>The cells of a metrics file with one row.\<close>

definition demo_rows :: dataframe where
  "demo_rows =
     [[''timestamp'', ''model'', ''latency'', ''response_length''],
      [''0'', ''A'', ''0.1'', ''10'']]"

text \<open>
  Further inputs and worlds: a blank prompt, a caller who has used up the limit, a
  metrics file with one row, and a run with other widget values.
\<close>

definition blank_inputs :: inputs where
  "blank_inputs = demo_inputs\<lparr>prompt := pystr_of ''   ''\<rparr>"

definition limited_world :: demo_world where
  "limited_world = demo_world0\<lparr>checked := [''u1'', ''u1'', ''u1'', ''u1'', ''u1'']\<rparr>"

definition metrics_world :: demo_world where
  "metrics_world = demo_world0\<lparr>csv := Some demo_rows\<rparr>"

definition other_inputs :: inputs where
  "other_inputs = demo_inputs\<lparr>task_index := 0, prompt := pystr_of ''hello'', model_temp := 0.1, max_tokens := 256\<rparr>"

text \<open>Reading the cards out of a trace.\<close>

fun is_card :: "'m event \<Rightarrow> bool" where
  "is_card (ModelCard _ _ _) = True"
| "is_card _ = False"

section \<open>Properties of the script\<close>

subsection \<open>Auxiliary facts\<close>

lemma all_dropWhile: "(\<forall>x \<in> set (dropWhile P s). P x) \<longleftrightarrow> (\<forall>x \<in> set s. P x)"
  by (induction s) auto

lemma strip_empty_iff: "strip s = [] \<longleftrightarrow> (\<forall>c \<in> set s. isspace c)"
  unfolding strip_def
  by (simp add: dropWhile_eq_Nil_conv all_dropWhile)

lemma visual_tab_Nil: "visual_tab [] = Inl StreamlitAPIException"
  by (simp add: visual_tab_def st_columns_def)

lemma visual_tab_nonempty:
  assumes "rs \<noteq> []"
  shows "visual_tab rs = Inr (StColumns (length rs) # model_cards rs)"
proof -
  have "map (\<lambda>(i, model, text). ModelCard ([0..<length rs] ! i) model text) (enumerate 0 rs)
      = map (\<lambda>(i, model, text). ModelCard i model text) (enumerate 0 rs)"
    by (rule map_cong) (auto simp: in_set_enumerate_eq)
  with assms show ?thesis
    by (simp add: visual_tab_def st_columns_def model_cards_def)
qed

lemma orchestrate_empty:
  assumes "choose_models e task w = (ms, w3)" and "run_parallel e p ms w3 = ([], w4)"
  shows "orchestrate e task p w =
           \<lparr>outcome = Raised StreamlitAPIException, trace = dispatch_steps task p ms, world = w4\<rparr>"
  using assms by (simp add: orchestrate_def visual_tab_Nil)

lemma orchestrate_nonempty:
  assumes "choose_models e task w = (ms, w3)" and "run_parallel e p ms w3 = (rs, w4)"
    and "rs \<noteq> []"
  shows "orchestrate e task p w =
           \<lparr>outcome = Completed,
            trace = dispatch_steps task p ms @ StColumns (length rs) # model_cards rs @
                    [StJson rs] @ cost_steps e p rs (clock e w4 - clock e w3) @
                    performance_tab e (generate_report e p rs w4),
            world = generate_report e p rs w4\<rparr>"
  using assms by (simp add: orchestrate_def visual_tab_nonempty cost_tab_def)

lemma main_cases [case_names no_user idle limited blank raised finished]:
  obtains
    w1 where "login e (session_user inp) w = (None, w1)"
      and "main e inp w = \<lparr>outcome = Stopped, trace = [CallLogin], world = w1\<rparr>"
  | u w1 where "login e (session_user inp) w = (Some u, w1)" and "\<not> run_btn inp"
      and "main e inp w = \<lparr>outcome = Completed, trace = CallLogin # page_header, world = w1\<rparr>"
  | u w1 w2 where "login e (session_user inp) w = (Some u, w1)" and "run_btn inp"
      and "check_limit e u w1 = (False, w2)"
      and "main e inp w =
             \<lparr>outcome = Stopped,
              trace = CallLogin # page_header @ [CallCheckLimit u, StError ''Rate limit reached.''],
              world = w2\<rparr>"
  | u w1 w2 where "login e (session_user inp) w = (Some u, w1)" and "run_btn inp"
      and "check_limit e u w1 = (True, w2)" and "strip (prompt inp) = []"
      and "main e inp w =
             \<lparr>outcome = Stopped,
              trace = CallLogin # page_header @ [CallCheckLimit u, StWarning ''Please enter a prompt.''],
              world = w2\<rparr>"
  | u w1 w2 ms w3 w4 where "login e (session_user inp) w = (Some u, w1)" and "run_btn inp"
      and "check_limit e u w1 = (True, w2)" and "strip (prompt inp) \<noteq> []"
      and "choose_models e (selectbox task_options (task_index inp)) w2 = (ms, w3)"
      and "run_parallel e (prompt inp) ms w3 = ([], w4)"
      and "main e inp w =
             \<lparr>outcome = Raised StreamlitAPIException,
              trace = CallLogin # page_header @ CallCheckLimit u #
                      dispatch_steps (selectbox task_options (task_index inp)) (prompt inp) ms,
              world = w4\<rparr>"
  | u w1 w2 ms w3 rs w4 where "login e (session_user inp) w = (Some u, w1)" and "run_btn inp"
      and "check_limit e u w1 = (True, w2)" and "strip (prompt inp) \<noteq> []"
      and "choose_models e (selectbox task_options (task_index inp)) w2 = (ms, w3)"
      and "run_parallel e (prompt inp) ms w3 = (rs, w4)" and "rs \<noteq> []"
      and "main e inp w =
             \<lparr>outcome = Completed,
              trace = CallLogin # page_header @ CallCheckLimit u #
                      dispatch_steps (selectbox task_options (task_index inp)) (prompt inp) ms @
                      StColumns (length rs) # model_cards rs @ [StJson rs] @
                      cost_steps e (prompt inp) rs (clock e w4 - clock e w3) @
                      performance_tab e (generate_report e (prompt inp) rs w4),
              world = generate_report e (prompt inp) rs w4\<rparr>"
proof -
  obtain s w1 where l: "login e (session_user inp) w = (s, w1)" by force
  show thesis
  proof (cases s)
    case None
    with l that(1) show thesis by (simp add: main_def)
  next
    case (Some u)
    note u = this
    show thesis
    proof (cases "run_btn inp")
      case False
      with l u that(2) show thesis by (simp add: main_def)
    next
      case True
      note rb = this
      obtain a w2 where c: "check_limit e u w1 = (a, w2)" by force
      show thesis
      proof (cases a)
        case False
        with l u rb c that(3)[of u w1 w2] show thesis
          by (simp add: main_def run_analysis_def)
      next
        case True
        note a = this
        show thesis
        proof (cases "strip (prompt inp) = []")
          case True
          with l u rb c a that(4)[of u w1 w2] show thesis
            by (simp add: main_def run_analysis_def)
        next
          case False
          note nb = this
          obtain ms w3 where m: "choose_models e (selectbox task_options (task_index inp)) w2 = (ms, w3)"
            by force
          obtain rs w4 where r: "run_parallel e (prompt inp) ms w3 = (rs, w4)" by force
          show thesis
          proof (cases "rs = []")
            case True
            with l u rb c a nb m r that(5)[of u w1 w2 ms w3 w4] show thesis
              by (simp add: main_def run_analysis_def orchestrate_empty)
          next
            case False
            with l u rb c a nb m r that(6)[of u w1 w2 ms w3 rs w4] show thesis
              by (simp add: main_def run_analysis_def orchestrate_nonempty)
          qed
        qed
      qed
    qed
  qed
qed

lemma calls_page_header [simp]: "calls page_header = []"
  by (simp add: calls_def page_header_def)

lemma calls_model_cards [simp]: "calls (model_cards rs) = []"
  by (auto simp: calls_def model_cards_def filter_empty_conv)

lemma calls_performance_tab [simp]: "calls (performance_tab e w) = []"
  by (simp add: calls_def performance_tab_def Let_def)

lemma calls_dispatch_steps [simp]:
  "calls (dispatch_steps task p ms) = [CallChooseModels task, CallRunParallel p ms]"
  by (simp add: calls_def dispatch_steps_def)

lemma calls_cost_steps [simp]: "calls (cost_steps e p rs d) = [CallGenerateReport p rs]"
  by (simp add: calls_def cost_steps_def)

lemma calls_append [simp]: "calls (xs @ ys) = calls xs @ calls ys"
  by (simp add: calls_def)

lemma calls_Cons [simp]: "calls (x # xs) = (if is_call x then x # calls xs else calls xs)"
  by (simp add: calls_def)

lemma calls_Nil [simp]: "calls [] = []"
  by (simp add: calls_def)

lemmas demo_defs = demo_env_def silent_env_def demo_inputs_def demo_world0_def blank_inputs_def
  limited_world_def metrics_world_def other_inputs_def demo_check_limit_def pystr_of_def

lemmas script_defs = main_def run_analysis_def orchestrate_def visual_tab_def st_columns_def
  cost_tab_def cost_steps_def dispatch_steps_def performance_tab_def page_header_def
  selectbox_def task_options_def strip_def isspace_def metrics_file_def model_cards_def

lemma list_all_isspace_strip: "list_all isspace s \<longleftrightarrow> strip s = []"
  by (simp add: strip_empty_iff list_all_iff)

lemma filter_model_cards_none:
  "(\<And>i m t. \<not> P (ModelCard i m t)) \<Longrightarrow> filter P (model_cards rs) = []"
  by (auto simp: model_cards_def filter_empty_conv)

lemma is_card_model_cards [simp]: "filter is_card (model_cards rs) = model_cards rs"
  by (auto simp: model_cards_def filter_id_conv)

lemma reported_costs_model_cards [simp]: "reported_costs (model_cards rs) = []"
  by (auto simp: reported_costs_def model_cards_def List.map_filter_def filter_empty_conv)

lemma model_cards_nth:
  "i < length rs \<Longrightarrow> model_cards rs ! i = ModelCard i (fst (rs ! i)) (snd (rs ! i))"
  by (simp add: model_cards_def nth_enumerate_eq case_prod_beta)

lemma length_model_cards [simp]: "length (model_cards rs) = length rs"
  by (simp add: model_cards_def)

lemma main_ignores_settings:
  "main e (inp\<lparr>model_temp := t, max_tokens := n\<rparr>) w = main e inp w"
  by (simp add: main_def split: prod.splits option.splits)

lemma selection_in_calls:
  "CallChooseModels t \<in> set tr \<Longrightarrow> CallChooseModels t \<in> set (calls tr)"
  by (simp add: calls_def)

lemma reported_costs_append [simp]: "reported_costs (xs @ ys) = reported_costs xs @ reported_costs ys"
  by (simp add: reported_costs_def List.map_filter_def)

lemma reported_costs_Cons [simp]:
  "reported_costs (x # xs) =
     (case estimated_cost x of None \<Rightarrow> reported_costs xs | Some c \<Rightarrow> c # reported_costs xs)"
  by (simp add: reported_costs_def List.map_filter_def split: option.splits)

lemma reported_costs_Nil [simp]: "reported_costs [] = []"
  by (simp add: reported_costs_def List.map_filter_def)

lemma reported_costs_main:
  assumes "run_btn inp" and "outcome (main e inp w) = Completed"
  shows "reported_costs (trace (main e inp w)) = [''$0.0042'']"
  using assms
  by (cases rule: main_cases[of e inp w])
     (simp_all add: page_header_def dispatch_steps_def cost_steps_def performance_tab_def Let_def)

subsection \<open>The claims\<close>

text \<open>
  Claim C1, as stated: a run request with an empty or whitespace-only prompt is rejected
  without charging the rate limiter.  This fails: \<open>main\<close> calls \<open>check_limit\<close>
  (line 165) before it looks at the prompt (line 169).  With a blank prompt the trace holds
  the rate-limit check for the caller, and a limiter that counts attempts has counted
  this one.
\<close>

theorem C1_blank_prompt_charged_counterexample:
  "list_all isspace (prompt blank_inputs) \<and>
   filter is_limit_check (trace (main demo_env blank_inputs demo_world0)) = [CallCheckLimit ''u1''] \<and>
   checked demo_world0 = [] \<and>
   checked (world (main demo_env blank_inputs demo_world0)) = [''u1'']"
  by (simp add: demo_defs script_defs)

text \<open>
  Claim C1, amended: for every run request whose prompt is empty or whitespace-only, the
  rate-limit check for the caller is made first; the run then stops with the prompt warning
  when the check allows, and with the rate-limit error otherwise.  The only collaborator
  calls are \<open>login\<close> and \<open>check_limit\<close>: no model is selected, no backend is called and
  no report is generated, and the outside world is left as the rate-limit check left it.
\<close>

theorem C1_blank_prompt_no_dispatch:
  assumes "login e (session_user inp) w = (Some u, w1)" and "run_btn inp"
    and "list_all isspace (prompt inp)"
  shows "main e inp w =
           \<lparr>outcome = Stopped,
            trace = CallLogin # page_header @
                    [CallCheckLimit u,
                     if fst (check_limit e u w1) then StWarning ''Please enter a prompt.''
                     else StError ''Rate limit reached.''],
            world = snd (check_limit e u w1)\<rparr> \<and>
         calls (trace (main e inp w)) = [CallLogin, CallCheckLimit u]"
  using assms
  by (cases rule: main_cases[of e inp w]) (simp_all add: list_all_isspace_strip)

theorem C1_blank_prompt_no_dispatch_witness:
  "login demo_env (session_user blank_inputs) demo_world0 = (Some ''u1'', demo_world0) \<and>
   run_btn blank_inputs \<and> list_all isspace (prompt blank_inputs) \<and>
   main demo_env blank_inputs demo_world0 =
     \<lparr>outcome = Stopped,
      trace = CallLogin # page_header @ [CallCheckLimit ''u1'', StWarning ''Please enter a prompt.''],
      world = demo_world0\<lparr>checked := [''u1'']\<rparr>\<rparr> \<and>
   calls (trace (main demo_env blank_inputs demo_world0)) = [CallLogin, CallCheckLimit ''u1'']"
  using C1_blank_prompt_no_dispatch [of demo_env blank_inputs demo_world0 "''u1''" demo_world0]
  by (simp add: demo_defs isspace_def)

text \<open>
  Claim C2: every dispatched run invokes the backends with the prompt, the temperature and
  the max_tokens of the request.  The script reads both settings in the sidebar (lines 123
  and 124) and then calls \<open>run_parallel(prompt, models)\<close> (line 176): the dispatch call
  carries the prompt and the models only.  Two runs that differ in temperature and
  max_tokens alone make the same dispatch call.
\<close>

theorem C2_settings_not_dispatched:
  "model_temp demo_inputs = 7 / 10 \<and> max_tokens demo_inputs = 1024 \<and>
   filter is_dispatch (trace (script demo_env demo_inputs demo_world0)) =
     [CallRunParallel (pystr_of ''write a sort function'') [''model-a'', ''model-b'']] \<and>
   filter is_dispatch
     (trace (script demo_env (demo_inputs\<lparr>model_temp := 1 / 10, max_tokens := 256\<rparr>) demo_world0)) =
     [CallRunParallel (pystr_of ''write a sort function'') [''model-a'', ''model-b'']]"
  by (simp add: script_def sidebar_def demo_defs script_defs)

text \<open>
  Claim C3, as stated: in every accepted run the report is generated after the dispatch
  and the result is presented last.  This fails twice.  The responses are presented (the
  cards of the visual tab and the raw JSON) before \<open>generate_report\<close> is called; and a run
  whose dispatcher returns an empty mapping raises in the visual tab and never generates a
  report.
\<close>

theorem C3_results_before_report_counterexample:
  "StJson [(''model-a'', ''ok''), (''model-b'', ''ok'')]
     \<in> set (takeWhile (Not \<circ> is_report) (trace (main demo_env demo_inputs demo_world0))) \<and>
   outcome (main silent_env demo_inputs demo_world0) = Raised StreamlitAPIException \<and>
   filter is_report (trace (main silent_env demo_inputs demo_world0)) = []"
  by (simp add: demo_defs script_defs)

text \<open>
  Claim C3, amended: for every accepted run (the rate-limit check allows and the prompt is
  not blank) whose dispatcher returns a non-empty mapping, the script performs, in exactly
  this order: the rate-limit check for the caller identity, the model selection for the
  objective, the dispatch of the prompt to the selected models, the presentation of the
  responses (one card per response, then the raw JSON), the report generation over the
  prompt and the responses, and the presentation of the cost figures and of the
  performance view.
\<close>

theorem C3_accepted_run_order:
  assumes "login e (session_user inp) w = (Some u, w1)" and "run_btn inp"
    and "check_limit e u w1 = (True, w2)" and "strip (prompt inp) \<noteq> []"
    and "choose_models e (selectbox task_options (task_index inp)) w2 = (ms, w3)"
    and "run_parallel e (prompt inp) ms w3 = (rs, w4)" and "rs \<noteq> []"
  shows "trace (main e inp w) =
           CallLogin # page_header @
           [CallCheckLimit u, StStatus ''Running model orchestration...'',
            CallChooseModels (selectbox task_options (task_index inp)),
            CallRunParallel (prompt inp) ms, StMarkdown ResultsHeading,
            StTabs [''Visual'', ''Raw JSON'', ''Cost'', ''Performance''],
            StColumns (length rs)] @ model_cards rs @
           [StJson rs, CallGenerateReport (prompt inp) rs, StSuccess ''Cost report generated.'',
            StColumns 2, StMetric ''Estimated Cost'' ''$0.0042'' ''-12%'',
            StMetric ''Avg Latency'' (elapsed_text e (clock e w4 - clock e w3)) ''Fast''] @
           performance_tab e (generate_report e (prompt inp) rs w4) \<and>
         calls (trace (main e inp w)) =
           [CallLogin, CallCheckLimit u, CallChooseModels (selectbox task_options (task_index inp)),
            CallRunParallel (prompt inp) ms, CallGenerateReport (prompt inp) rs]"
  using assms
  by (cases rule: main_cases[of e inp w]) (simp_all add: dispatch_steps_def cost_steps_def)

theorem C3_accepted_run_order_witness:
  "login demo_env (session_user demo_inputs) demo_world0 = (Some ''u1'', demo_world0) \<and>
   run_btn demo_inputs \<and>
   check_limit demo_env ''u1'' demo_world0 = (True, demo_world0\<lparr>checked := [''u1'']\<rparr>) \<and>
   strip (prompt demo_inputs) \<noteq> [] \<and>
   choose_models demo_env (selectbox task_options (task_index demo_inputs))
     (demo_world0\<lparr>checked := [''u1'']\<rparr>) = ([''model-a'', ''model-b''], demo_world0\<lparr>checked := [''u1'']\<rparr>) \<and>
   run_parallel demo_env (prompt demo_inputs) [''model-a'', ''model-b''] (demo_world0\<lparr>checked := [''u1'']\<rparr>) =
     ([(''model-a'', ''ok''), (''model-b'', ''ok'')], demo_world0\<lparr>checked := [''u1'']\<rparr>) \<and>
   [(''model-a'', ''ok''), (''model-b'', ''ok'')] \<noteq> [] \<and>
   calls (trace (main demo_env demo_inputs demo_world0)) =
     [CallLogin, CallCheckLimit ''u1'', CallChooseModels ''Coding'',
      CallRunParallel (prompt demo_inputs) [''model-a'', ''model-b''],
      CallGenerateReport (prompt demo_inputs) [(''model-a'', ''ok''), (''model-b'', ''ok'')]]"
  using C3_accepted_run_order [of demo_env demo_inputs demo_world0 "''u1''" demo_world0
      "demo_world0\<lparr>checked := [''u1'']\<rparr>" "[''model-a'', ''model-b'']"
      "demo_world0\<lparr>checked := [''u1'']\<rparr>" "[(''model-a'', ''ok''), (''model-b'', ''ok'')]"
      "demo_world0\<lparr>checked := [''u1'']\<rparr>"]
  by (simp add: demo_defs selectbox_def task_options_def strip_def isspace_def)

text \<open>
  Claim C4: when the rate-limit check for the caller's identity does not allow the run, the
  run stops at once with the rate-limit error: the only collaborator calls are \<open>login\<close>
  and \<open>check_limit\<close>, and the outside world is the one the rate-limit check left.
\<close>

theorem C4_rate_limited_stops:
  assumes "login e (session_user inp) w = (Some u, w1)" and "run_btn inp"
    and "check_limit e u w1 = (False, w2)"
  shows "main e inp w =
           \<lparr>outcome = Stopped,
            trace = CallLogin # page_header @ [CallCheckLimit u, StError ''Rate limit reached.''],
            world = w2\<rparr> \<and>
         calls (trace (main e inp w)) = [CallLogin, CallCheckLimit u]"
  using assms
  by (cases rule: main_cases[of e inp w]) simp_all

theorem C4_rate_limited_stops_witness:
  "login demo_env (session_user demo_inputs) limited_world = (Some ''u1'', limited_world) \<and>
   run_btn demo_inputs \<and>
   check_limit demo_env ''u1'' limited_world = (False, limited_world\<lparr>checked := ''u1'' # checked limited_world\<rparr>) \<and>
   main demo_env demo_inputs limited_world =
     \<lparr>outcome = Stopped,
      trace = CallLogin # page_header @ [CallCheckLimit ''u1'', StError ''Rate limit reached.''],
      world = limited_world\<lparr>checked := ''u1'' # checked limited_world\<rparr>\<rparr> \<and>
   calls (trace (main demo_env demo_inputs limited_world)) = [CallLogin, CallCheckLimit ''u1'']"
  using C4_rate_limited_stops [of demo_env demo_inputs limited_world "''u1''" limited_world
      "limited_world\<lparr>checked := ''u1'' # checked limited_world\<rparr>"]
  by (simp add: demo_defs)

text \<open>
  Claim C5: the objective passed to the model selection is one of the four options of the
  select box, written in the script as \<open>General\<close>, \<open>Coding\<close>, \<open>Fast Response\<close> and
  \<open>Cost Saving\<close>, whenever the selected position is one of the four.
\<close>

theorem C5_objective_enumerated:
  assumes "task_index inp < length task_options"
    and "CallChooseModels t \<in> set (trace (main e inp w))"
  shows "t \<in> {''General'', ''Coding'', ''Fast Response'', ''Cost Saving''}"
proof -
  have "selectbox task_options (task_index inp) \<in> set task_options"
    using assms(1) by (simp add: selectbox_def)
  then have opt: "selectbox task_options (task_index inp)
      \<in> {''General'', ''Coding'', ''Fast Response'', ''Cost Saving''}"
    by (simp add: task_options_def)
  have "CallChooseModels t \<in> set (calls (trace (main e inp w)))"
    using assms(2) by (rule selection_in_calls)
  then have "t = selectbox task_options (task_index inp)"
    by (cases rule: main_cases[of e inp w]) (simp_all split: if_splits)
  with opt show ?thesis by simp
qed

theorem C5_objective_enumerated_witness:
  "task_index demo_inputs < length task_options \<and>
   CallChooseModels ''Coding'' \<in> set (trace (main demo_env demo_inputs demo_world0)) \<and>
   ''Coding'' \<in> {''General'', ''Coding'', ''Fast Response'', ''Cost Saving''}"
  using C5_objective_enumerated [of demo_inputs "''Coding''" demo_env demo_world0]
  by (simp add: demo_defs script_defs)

text \<open>
  Claim C7: the estimated cost shown by a completed run is the constant \<open>$0.0042\<close>,
  whatever the prompt, the models and the responses: two completed runs show the same
  cost.
\<close>

theorem C7_estimated_cost_constant:
  assumes "run_btn inp" and "outcome (main e inp w) = Completed"
    and "run_btn inp'" and "outcome (main e' inp' w') = Completed"
  shows "reported_costs (trace (main e inp w)) = [''$0.0042''] \<and>
         reported_costs (trace (main e' inp' w')) = reported_costs (trace (main e inp w))"
  using assms by (simp add: reported_costs_main)

theorem C7_estimated_cost_constant_witness:
  "run_btn demo_inputs \<and> outcome (main demo_env demo_inputs demo_world0) = Completed \<and>
   run_btn other_inputs \<and> outcome (main demo_env other_inputs metrics_world) = Completed \<and>
   reported_costs (trace (main demo_env demo_inputs demo_world0)) = [''$0.0042''] \<and>
   reported_costs (trace (main demo_env other_inputs metrics_world)) =
     reported_costs (trace (main demo_env demo_inputs demo_world0))"
  using C7_estimated_cost_constant [of demo_inputs demo_env demo_world0 other_inputs demo_env metrics_world]
  by (simp add: demo_defs main_def run_analysis_def orchestrate_def visual_tab_def st_columns_def
      cost_tab_def selectbox_def task_options_def strip_def isspace_def)



text \<open>
  Claim C9: when the metrics file does not exist, an accepted run with a non-empty
  response mapping completes; its performance view is the check for the file followed by
  the warning \<open>No metrics available.\<close>, and the trace holds no read of the file and no
  chart.
\<close>

theorem C9_missing_metrics_file:
  assumes "login e (session_user inp) w = (Some u, w1)" and "run_btn inp"
    and "check_limit e u w1 = (True, w2)" and "strip (prompt inp) \<noteq> []"
    and "choose_models e (selectbox task_options (task_index inp)) w2 = (ms, w3)"
    and "run_parallel e (prompt inp) ms w3 = (rs, w4)" and "rs \<noteq> []"
    and "\<not> path_exists e metrics_file (generate_report e (prompt inp) rs w4)"
  shows "outcome (main e inp w) = Completed \<and>
         performance_tab e (world (main e inp w)) =
           [OsPathExists metrics_file, StWarning ''No metrics available.''] \<and>
         drop (length (trace (main e inp w)) - 2) (trace (main e inp w)) =
           [OsPathExists metrics_file, StWarning ''No metrics available.''] \<and>
         filter is_read (trace (main e inp w)) = []"
  using assms
  by (cases rule: main_cases[of e inp w])
     (simp_all add: page_header_def dispatch_steps_def cost_steps_def performance_tab_def Let_def
        filter_model_cards_none)

theorem C9_missing_metrics_file_witness:
  "login demo_env (session_user demo_inputs) demo_world0 = (Some ''u1'', demo_world0) \<and>
   run_btn demo_inputs \<and>
   check_limit demo_env ''u1'' demo_world0 = (True, demo_world0\<lparr>checked := [''u1'']\<rparr>) \<and>
   strip (prompt demo_inputs) \<noteq> [] \<and>
   choose_models demo_env (selectbox task_options (task_index demo_inputs))
     (demo_world0\<lparr>checked := [''u1'']\<rparr>) = ([''model-a'', ''model-b''], demo_world0\<lparr>checked := [''u1'']\<rparr>) \<and>
   run_parallel demo_env (prompt demo_inputs) [''model-a'', ''model-b''] (demo_world0\<lparr>checked := [''u1'']\<rparr>) =
     ([(''model-a'', ''ok''), (''model-b'', ''ok'')], demo_world0\<lparr>checked := [''u1'']\<rparr>) \<and>
   [(''model-a'', ''ok''), (''model-b'', ''ok'')] \<noteq> [] \<and>
   \<not> path_exists demo_env metrics_file
        (generate_report demo_env (prompt demo_inputs) [(''model-a'', ''ok''), (''model-b'', ''ok'')]
           (demo_world0\<lparr>checked := [''u1'']\<rparr>)) \<and>
   outcome (main demo_env demo_inputs demo_world0) = Completed \<and>
   filter is_read (trace (main demo_env demo_inputs demo_world0)) = []"
  using C9_missing_metrics_file [of demo_env demo_inputs demo_world0 "''u1''" demo_world0
      "demo_world0\<lparr>checked := [''u1'']\<rparr>" "[''model-a'', ''model-b'']"
      "demo_world0\<lparr>checked := [''u1'']\<rparr>" "[(''model-a'', ''ok''), (''model-b'', ''ok'')]"
      "demo_world0\<lparr>checked := [''u1'']\<rparr>"]
  by (simp add: demo_defs selectbox_def task_options_def strip_def isspace_def)

text \<open>
  Claim C10: the visual tab asks for one column per entry of the response mapping.  For an
  empty mapping \<open>st.columns\<close> raises, no card is rendered and no report is generated; for
  a non-empty mapping the run completes and the cards are the entries in the mapping's
  order, entry \<open>i\<close> in column \<open>i\<close>.
\<close>

theorem C10_one_column_per_response:
  assumes "login e (session_user inp) w = (Some u, w1)" and "run_btn inp"
    and "check_limit e u w1 = (True, w2)" and "strip (prompt inp) \<noteq> []"
    and "choose_models e (selectbox task_options (task_index inp)) w2 = (ms, w3)"
    and "run_parallel e (prompt inp) ms w3 = (rs, w4)"
  shows "if rs = []
         then visual_tab rs = (Inl StreamlitAPIException :: error + 'm event list) \<and>
              outcome (main e inp w) = Raised StreamlitAPIException \<and>
              filter is_card (trace (main e inp w)) = [] \<and>
              filter is_report (trace (main e inp w)) = []
         else visual_tab rs = (Inr (StColumns (length rs) # model_cards rs) :: error + 'm event list) \<and>
              outcome (main e inp w) = Completed \<and>
              filter is_card (trace (main e inp w)) = model_cards rs \<and>
              (model_cards rs :: 'm event list) =
                map (\<lambda>i. ModelCard i (fst (rs ! i)) (snd (rs ! i))) [0..<length rs]"
proof (cases "rs = []")
  case True
  with assms show ?thesis
    by (cases rule: main_cases[of e inp w])
       (simp_all add: visual_tab_Nil page_header_def dispatch_steps_def)
next
  case False
  have "(model_cards rs :: 'm event list) =
      map (\<lambda>i. ModelCard i (fst (rs ! i)) (snd (rs ! i))) [0..<length rs]"
    by (rule nth_equalityI) (simp_all add: model_cards_nth)
  moreover have "outcome (main e inp w) = Completed \<and>
      filter is_card (trace (main e inp w)) = model_cards rs"
    using assms False
    by (cases rule: main_cases[of e inp w])
       (simp_all add: page_header_def dispatch_steps_def cost_steps_def performance_tab_def Let_def)
  ultimately show ?thesis
    using False by (simp add: visual_tab_nonempty)
qed

theorem C10_one_column_per_response_witness:
  "login silent_env (session_user demo_inputs) demo_world0 = (Some ''u1'', demo_world0) \<and>
   run_btn demo_inputs \<and>
   check_limit silent_env ''u1'' demo_world0 = (True, demo_world0\<lparr>checked := [''u1'']\<rparr>) \<and>
   strip (prompt demo_inputs) \<noteq> [] \<and>
   choose_models silent_env (selectbox task_options (task_index demo_inputs))
     (demo_world0\<lparr>checked := [''u1'']\<rparr>) = ([''model-a'', ''model-b''], demo_world0\<lparr>checked := [''u1'']\<rparr>) \<and>
   run_parallel silent_env (prompt demo_inputs) [''model-a'', ''model-b''] (demo_world0\<lparr>checked := [''u1'']\<rparr>) =
     ([], demo_world0\<lparr>checked := [''u1'']\<rparr>) \<and>
   outcome (main silent_env demo_inputs demo_world0) = Raised StreamlitAPIException \<and>
   run_parallel demo_env (prompt demo_inputs) [''model-a'', ''model-b''] (demo_world0\<lparr>checked := [''u1'']\<rparr>) =
     ([(''model-a'', ''ok''), (''model-b'', ''ok'')], demo_world0\<lparr>checked := [''u1'']\<rparr>) \<and>
   filter is_card (trace (main demo_env demo_inputs demo_world0)) =
     [ModelCard 0 ''model-a'' ''ok'', ModelCard 1 ''model-b'' ''ok'']"
  using C10_one_column_per_response [of silent_env demo_inputs demo_world0 "''u1''" demo_world0
      "demo_world0\<lparr>checked := [''u1'']\<rparr>" "[''model-a'', ''model-b'']"
      "demo_world0\<lparr>checked := [''u1'']\<rparr>" "[]" "demo_world0\<lparr>checked := [''u1'']\<rparr>"]
    C10_one_column_per_response [of demo_env demo_inputs demo_world0 "''u1''" demo_world0
      "demo_world0\<lparr>checked := [''u1'']\<rparr>" "[''model-a'', ''model-b'']"
      "demo_world0\<lparr>checked := [''u1'']\<rparr>" "[(''model-a'', ''ok''), (''model-b'', ''ok'')]"
      "demo_world0\<lparr>checked := [''u1'']\<rparr>"]
  by (simp add: demo_defs script_defs)

end
